theory Spec2Isabelle
  imports Complex_Main "HOL-Library.Sublist"
begin

section \<open>The ESP32 - Crazyflie connection monitor\<close>

text \<open>
  A shallow embedding of \<^verbatim>\<open>esp32_crazyflie_connection_monitor.py\<close>. The class
  \<^verbatim>\<open>ConnectionMonitor\<close> becomes a record, each method a function that takes the
  monitor and returns how the call ended, the monitor afterwards and the calls it made
  on the outside world (log lines, serial and link operations), in order. What the
  outside world answers to a call (a return value or a raised exception) is a parameter
  of the method, one per external call site.
\<close>

subsection \<open>Exceptions and results\<close>

text \<open>
  Python's exception hierarchy, as far as the handlers of the script tell classes apart:
  \<^verbatim>\<open>except Exception\<close> catches every subclass of \<^verbatim>\<open>Exception\<close>
  (\<^verbatim>\<open>EOFError\<close> is one), but neither \<^verbatim>\<open>KeyboardInterrupt\<close> nor any other
  direct subclass of \<^verbatim>\<open>BaseException\<close>; a bare \<^verbatim>\<open>except:\<close> catches all.
\<close>

datatype exn =
    Exception string
  | EOFError
  | KeyboardInterrupt
  | BaseException string

fun is_Exception :: "exn \<Rightarrow> bool" where
  "is_Exception (Exception msg) = True"
| "is_Exception EOFError = True"
| "is_Exception KeyboardInterrupt = False"
| "is_Exception (BaseException msg) = False"

text \<open>
  A call returns a value or raises an exception. A call that waits for the clock can
  also outlast the answers of the outside world that a run is given: it is unfinished.
\<close>

datatype 'a outcome = Returns 'a | Raises exn | Unfinished

subsection \<open>Strings\<close>

text \<open>
  Strings are byte strings (UTF-8). The three glyphs of the log messages are written
  as their encodings, the line terminator is the byte 10.
\<close>

definition nl :: string where
  "nl = [CHR 0x0A]"

definition check_mark :: string where
  "check_mark = [CHR 0xE2, CHR 0x9C, CHR 0x93]"

definition cross_mark :: string where
  "cross_mark = [CHR 0xE2, CHR 0x9C, CHR 0x97]"

definition warning_sign :: string where
  "warning_sign = [CHR 0xE2, CHR 0x9A, CHR 0xA0]"

text \<open>
  \<^verbatim>\<open>str.lower\<close> on the ASCII letters; bytes of 128 and more belong to the encoding
  of a character outside ASCII and stay as they are.
\<close>

definition lower_char :: "char \<Rightarrow> char" where
  "lower_char c =
     (let n = (of_char c :: nat)
      in if 65 \<le> n \<and> n \<le> 90 then char_of (n + 32) else c)"

definition lower :: "string \<Rightarrow> string" where
  "lower s = map lower_char s"

text \<open>
  \<^verbatim>\<open>str.strip\<close> removes whitespace at both ends. These are the 29 characters that
  Python takes for whitespace, in their encodings: the ASCII ones (9 to 13, 28 to 32),
  U+0085, U+00A0, U+1680, U+2000 to U+200A, U+2028, U+2029, U+202F, U+205F, U+3000.
\<close>

definition whitespace :: "string list" where
  "whitespace =
     [[CHR 0x09], [CHR 0x0A], [CHR 0x0B], [CHR 0x0C], [CHR 0x0D],
      [CHR 0x1C], [CHR 0x1D], [CHR 0x1E], [CHR 0x1F], [CHR 0x20],
      [CHR 0xC2, CHR 0x85], [CHR 0xC2, CHR 0xA0],
      [CHR 0xE1, CHR 0x9A, CHR 0x80],
      [CHR 0xE2, CHR 0x80, CHR 0x80], [CHR 0xE2, CHR 0x80, CHR 0x81],
      [CHR 0xE2, CHR 0x80, CHR 0x82], [CHR 0xE2, CHR 0x80, CHR 0x83],
      [CHR 0xE2, CHR 0x80, CHR 0x84], [CHR 0xE2, CHR 0x80, CHR 0x85],
      [CHR 0xE2, CHR 0x80, CHR 0x86], [CHR 0xE2, CHR 0x80, CHR 0x87],
      [CHR 0xE2, CHR 0x80, CHR 0x88], [CHR 0xE2, CHR 0x80, CHR 0x89],
      [CHR 0xE2, CHR 0x80, CHR 0x8A],
      [CHR 0xE2, CHR 0x80, CHR 0xA8], [CHR 0xE2, CHR 0x80, CHR 0xA9],
      [CHR 0xE2, CHR 0x80, CHR 0xAF], [CHR 0xE2, CHR 0x81, CHR 0x9F],
      [CHR 0xE3, CHR 0x80, CHR 0x80]]"

text \<open>
  \<open>lstrip_of ws s\<close> removes from the front of \<open>s\<close> every leading occurrence of one
  of the byte sequences \<open>ws\<close>. In a well-formed UTF-8 string a whitespace encoding at
  the end is the last character, so the right end is stripped on the reversed string.
\<close>

function lstrip_of :: "string list \<Rightarrow> string \<Rightarrow> string" where
  "lstrip_of ws s =
     (case find (\<lambda>w. w \<noteq> [] \<and> prefix w s) ws of
        None \<Rightarrow> s
      | Some w \<Rightarrow> lstrip_of ws (drop (length w) s))"
  by pat_completeness auto
termination
  by (relation "measure (\<lambda>(ws, s). length s)") (auto simp: find_Some_iff prefix_def)

declare lstrip_of.simps [simp del]

definition strip :: "string \<Rightarrow> string" where
  "strip s = rev (lstrip_of (map rev whitespace) (rev (lstrip_of whitespace s)))"

text \<open>The operator \<^verbatim>\<open>in\<close> on two strings: \<open>str_in k s\<close> is \<^verbatim>\<open>k in s\<close>.\<close>

fun str_in :: "string \<Rightarrow> string \<Rightarrow> bool" where
  "str_in k [] = (k = [])"
| "str_in k (c # cs) = (prefix k (c # cs) \<or> str_in k cs)"

subsection \<open>The outside world: log lines and external calls\<close>

datatype level = INFO | WARNING | ERROR

text \<open>
  A log message is an f-string: literal text and formatted values, in order. The
  rendering of a value by \<^verbatim>\<open>format\<close> is not modelled.
\<close>

datatype frag =
    Lit string
  | FmtStr string
  | FmtInt int
  | FmtExn exn
  | FmtIface "string \<times> string"

datatype event =
    Log level "frag list"
  | Print string
  | Init_drivers
  | Scan_interfaces
  | Comports
  | Open_link string
  | Close_link
  | Param_get_value string
  | Serial_open string int
  | Serial_write string
  | Serial_readline
  | Serial_in_waiting
  | Serial_close
  | Sleep nat
  | Thread_start
  | Input string

subsection \<open>The monitor\<close>

text \<open>
  \<^verbatim>\<open>connection_status\<close> is a dict that is created with three keys and only ever
  read and written at these three literal keys: a record of three booleans.
\<close>

record connection_status =
  crazyflie_connected :: bool
  esp32_connected :: bool
  communication_active :: bool

datatype crazyflie_obj = Crazyflie string

datatype serial_obj = Serial string int

record monitor =
  crazyflie :: "crazyflie_obj option"
  esp32_serial :: "serial_obj option"
  connection_status :: connection_status
  monitoring :: bool

type_synonym 'a result = "'a outcome \<times> monitor \<times> event list"

definition init_monitor :: monitor where
  "init_monitor =
     \<lparr> crazyflie = None, esp32_serial = None,
       connection_status =
         \<lparr> crazyflie_connected = False, esp32_connected = False, communication_active = False \<rparr>,
       monitoring = False \<rparr>"

definition set_crazyflie_connected :: "bool \<Rightarrow> monitor \<Rightarrow> monitor" where
  "set_crazyflie_connected b m =
     m\<lparr>connection_status := (connection_status m)\<lparr>crazyflie_connected := b\<rparr>\<rparr>"

definition set_esp32_connected :: "bool \<Rightarrow> monitor \<Rightarrow> monitor" where
  "set_esp32_connected b m =
     m\<lparr>connection_status := (connection_status m)\<lparr>esp32_connected := b\<rparr>\<rparr>"

subsection \<open>Link notifications\<close>

text \<open>
  \<^verbatim>\<open>_crazyflie_connected\<close>. The two parameter read-backs are external calls:
  \<open>fw\<close> and \<open>bat\<close> say whether the first and the second raise.
\<close>

definition read_params_failed :: "exn \<Rightarrow> monitor \<Rightarrow> event list \<Rightarrow> unit result" where
  "read_params_failed e m evs =
     (if is_Exception e
      then (Returns (), m, evs @ [Log WARNING [Lit ''Could not read Crazyflie parameters: '', FmtExn e]])
      else (Raises e, m, evs))"

definition cb_crazyflie_connected :: "exn option \<Rightarrow> exn option \<Rightarrow> string \<Rightarrow> monitor \<Rightarrow> unit result" where
  "cb_crazyflie_connected fw bat uri m =
     (let ev0 = [Log INFO [Lit (check_mark @ '' Crazyflie connected: ''), FmtStr uri]];
          m1 = set_crazyflie_connected True m
      in case crazyflie m1 of
           None \<Rightarrow> (Returns (), m1, ev0)
         | Some cf \<Rightarrow>
             (let ev1 = ev0 @ [Param_get_value ''firmware.revision0'']
              in case fw of
                   Some e \<Rightarrow> read_params_failed e m1 ev1
                 | None \<Rightarrow>
                     (let ev2 = ev1 @ [Param_get_value ''pm.vbat'']
                      in case bat of
                           Some e \<Rightarrow> read_params_failed e m1 ev2
                         | None \<Rightarrow> (Returns (), m1, ev2))))"

definition cb_crazyflie_disconnected :: "string \<Rightarrow> monitor \<Rightarrow> unit result" where
  "cb_crazyflie_disconnected uri m =
     (Returns (), set_crazyflie_connected False m,
      [Log WARNING [Lit (warning_sign @ '' Crazyflie disconnected: ''), FmtStr uri]])"

definition cb_crazyflie_connection_failed :: "string \<Rightarrow> string \<Rightarrow> monitor \<Rightarrow> unit result" where
  "cb_crazyflie_connection_failed uri msg m =
     (Returns (), set_crazyflie_connected False m,
      [Log ERROR [Lit (cross_mark @ '' Crazyflie connection failed: ''), FmtStr uri, Lit '' - '', FmtStr msg]])"

subsection \<open>Commands to the serial peripheral\<close>

text \<open>
  \<^verbatim>\<open>send_esp32_command\<close>; \<open>w\<close> says whether encoding and writing the line raises.
  The method has no \<^verbatim>\<open>return\<close> statement: it returns \<^verbatim>\<open>None\<close> on every path.
\<close>

definition send_esp32_command :: "exn option \<Rightarrow> string \<Rightarrow> monitor \<Rightarrow> unit result" where
  "send_esp32_command w command m =
     (if esp32_serial m \<noteq> None \<and> esp32_connected (connection_status m)
      then (case w of
              None \<Rightarrow>
                (Returns (), m,
                 [Serial_write (command @ nl), Log INFO [Lit ''Sent command to ESP32: '', FmtStr command]])
            | Some e \<Rightarrow>
                (if is_Exception e
                 then (Returns (), m,
                       [Serial_write (command @ nl),
                        Log ERROR [Lit ''Failed to send command to ESP32: '', FmtExn e]])
                 else (Raises e, m, [Serial_write (command @ nl)])))
      else (Returns (), m, [Log ERROR [Lit ''ESP32 not connected'']]))"

text \<open>
  \<^verbatim>\<open>test_power_connection\<close>; \<open>w\<close> is the outcome of the serial write, \<open>p\<close> that
  of the parameter read-back.
\<close>

definition power_test_failed :: "exn \<Rightarrow> monitor \<Rightarrow> event list \<Rightarrow> bool result" where
  "power_test_failed e m evs =
     (if is_Exception e
      then (Returns False, m, evs @ [Log ERROR [Lit ''Power test failed: '', FmtExn e]])
      else (Raises e, m, evs))"

definition test_power_connection :: "exn option \<Rightarrow> exn option \<Rightarrow> monitor \<Rightarrow> bool result" where
  "test_power_connection w p m =
     (let ev0 = [Log INFO [Lit ''Testing power connection...'']]
      in if \<not> crazyflie_connected (connection_status m)
         then (Returns False, m,
               ev0 @ [Log ERROR [Lit ''Cannot test power connection - Crazyflie not connected'']])
         else if \<not> esp32_connected (connection_status m)
         then (Returns False, m,
               ev0 @ [Log ERROR [Lit ''Cannot test power connection - ESP32 not connected'']])
         else
           (let ev1 = ev0 @ [Log INFO [Lit ''Testing power draw...'']]
            in case esp32_serial m of
                 None \<Rightarrow> (Returns True, m, ev1)
               | Some s \<Rightarrow>
                   (let ev2 = ev1 @ [Serial_write (''POWER_TEST'' @ nl)]
                    in case w of
                         Some e \<Rightarrow> power_test_failed e m ev2
                       | None \<Rightarrow>
                           (let ev3 = ev2 @ [Sleep 1000]
                            in case crazyflie m of
                                 None \<Rightarrow> (Returns True, m, ev3)
                               | Some cf \<Rightarrow>
                                   (let ev4 = ev3 @ [Param_get_value ''pm.vbat'']
                                    in case p of
                                         Some e \<Rightarrow> power_test_failed e m ev4
                                       | None \<Rightarrow> (Returns True, m, ev4))))))"

subsection \<open>Teardown\<close>

text \<open>
  \<^verbatim>\<open>cleanup\<close>; \<open>cl\<close> and \<open>cs\<close> are the outcomes of closing the link and the serial
  port. Both handlers are \<^verbatim>\<open>except: pass\<close>.
\<close>

definition cleanup :: "exn option \<Rightarrow> exn option \<Rightarrow> monitor \<Rightarrow> unit result" where
  "cleanup cl cs m =
     (let ev0 = [Log INFO [Lit ''Cleaning up connections...'']];
          m1 = m\<lparr>monitoring := False\<rparr>;
          ev1 = (case crazyflie m1 of
                   None \<Rightarrow> []
                 | Some cf \<Rightarrow>
                     Close_link #
                     (case cl of
                        None \<Rightarrow> [Log INFO [Lit ''Crazyflie connection closed'']]
                      | Some e \<Rightarrow> []));
          ev2 = (case esp32_serial m1 of
                   None \<Rightarrow> []
                 | Some s \<Rightarrow>
                     Serial_close #
                     (case cs of
                        None \<Rightarrow> [Log INFO [Lit ''ESP32 serial connection closed'']]
                      | Some e \<Rightarrow> []))
      in (Returns (), m1, ev0 @ ev1 @ ev2))"

subsection \<open>Device discovery\<close>

text \<open>
  \<^verbatim>\<open>initialize_crazyflie_drivers\<close>; \<open>ini\<close> is the outcome of \<^verbatim>\<open>init_drivers\<close>,
  \<open>sc\<close> that of \<^verbatim>\<open>scan_interfaces\<close>, which returns pairs of a URI and a comment.
\<close>

definition drivers_failed :: "exn \<Rightarrow> monitor \<Rightarrow> event list \<Rightarrow> (string \<times> string) list result" where
  "drivers_failed e m evs =
     (if is_Exception e
      then (Returns [], m, evs @ [Log ERROR [Lit ''Failed to initialize Crazyflie drivers: '', FmtExn e]])
      else (Raises e, m, evs))"

definition initialize_crazyflie_drivers ::
  "exn option \<Rightarrow> exn + (string \<times> string) list \<Rightarrow> monitor \<Rightarrow> (string \<times> string) list result" where
  "initialize_crazyflie_drivers ini sc m =
     (let ev0 = [Log INFO [Lit ''Initializing Crazyflie drivers...''], Init_drivers]
      in case ini of
           Some e \<Rightarrow> drivers_failed e m ev0
         | None \<Rightarrow>
             (let ev1 = ev0 @ [Scan_interfaces]
              in case sc of
                   Inl e \<Rightarrow> drivers_failed e m ev1
                 | Inr available \<Rightarrow>
                     (Returns available, m,
                      ev1 @ [Log INFO [Lit ''Found '', FmtInt (int (length available)),
                                       Lit '' Crazyflie device(s)'']]
                          @ map (\<lambda>uri. Log INFO [Lit ''  - '', FmtIface uri]) available)))"

text \<open>
  \<^verbatim>\<open>scan_esp32_ports\<close>; \<open>cp\<close> is the outcome of \<^verbatim>\<open>comports\<close>. The loop over the
  ports appends to \<^verbatim>\<open>esp32_ports\<close>.
\<close>

record port_info =
  device :: string
  description :: string

definition esp32_keywords :: "string list" where
  "esp32_keywords = [''esp32'', ''xiao'', ''ch340'', ''cp210'']"

fun scan_ports_loop :: "port_info list \<Rightarrow> string list \<Rightarrow> string list \<times> event list" where
  "scan_ports_loop [] esp32_ports = (esp32_ports, [])"
| "scan_ports_loop (port # ports) esp32_ports =
     (let ev = Log INFO [Lit ''  - '', FmtStr (device port), Lit '': '', FmtStr (description port)];
          esp32_ports1 =
            (if list_ex (\<lambda>keyword. str_in keyword (lower (description port))) esp32_keywords
             then esp32_ports @ [device port] else esp32_ports);
          (found, evs) = scan_ports_loop ports esp32_ports1
      in (found, ev # evs))"

definition scan_esp32_ports :: "exn + port_info list \<Rightarrow> monitor \<Rightarrow> string list result" where
  "scan_esp32_ports cp m =
     (case cp of
        Inl e \<Rightarrow>
          (if is_Exception e
           then (Returns [], m, [Comports, Log ERROR [Lit ''Failed to scan serial ports: '', FmtExn e]])
           else (Raises e, m, [Comports]))
      | Inr ports \<Rightarrow>
          (let (found, evs) = scan_ports_loop ports []
           in (Returns found, m,
               Comports # Log INFO [Lit ''Scanning for ESP32 serial ports...''] # evs)))"

subsection \<open>Connecting the serial peripheral\<close>

text \<open>
  \<^verbatim>\<open>connect_to_esp32\<close>; \<open>op\<close> is the outcome of opening the port, \<open>w\<close> that of
  writing the probe, \<open>r\<close> that of reading and decoding one line.
\<close>

definition default_baudrate :: int where
  "default_baudrate = 115200"

definition esp32_failed :: "exn \<Rightarrow> monitor \<Rightarrow> event list \<Rightarrow> bool result" where
  "esp32_failed e m evs =
     (if is_Exception e
      then (Returns False, m, evs @ [Log ERROR [Lit (cross_mark @ '' Failed to connect to ESP32: ''), FmtExn e]])
      else (Raises e, m, evs))"

definition connect_to_esp32 ::
  "exn option \<Rightarrow> exn option \<Rightarrow> exn + string \<Rightarrow> string \<Rightarrow> int \<Rightarrow> monitor \<Rightarrow> bool result" where
  "connect_to_esp32 op w r port baudrate m =
     (let ev0 = [Log INFO [Lit ''Attempting to connect to ESP32 at '', FmtStr port,
                           Lit '' (baudrate: '', FmtInt baudrate, Lit '')''],
                 Serial_open port baudrate]
      in case op of
           Some e \<Rightarrow> esp32_failed e m ev0
         | None \<Rightarrow>
             (let m1 = m\<lparr>esp32_serial := Some (Serial port baudrate)\<rparr>;
                  ev1 = ev0 @ [Serial_write (''PING'' @ nl)]
              in case w of
                   Some e \<Rightarrow> esp32_failed e m1 ev1
                 | None \<Rightarrow>
                     (let ev2 = ev1 @ [Serial_readline]
                      in case r of
                           Inl e \<Rightarrow> esp32_failed e m1 ev2
                         | Inr text \<Rightarrow>
                             (let response = strip text
                              in if response \<noteq> []
                                 then (Returns True, set_esp32_connected True m1,
                                       ev2 @ [Log INFO [Lit (check_mark @ '' ESP32 responded: ''),
                                                        FmtStr response]])
                                 else (Returns True, set_esp32_connected True m1,
                                       ev2 @ [Log WARNING
                                                [Lit (warning_sign @ '' ESP32 connected but no response to ping'')]])))))"

subsection \<open>Connecting the link peripheral\<close>

text \<open>
  The link library calls the three handlers from its own thread. A notification is the
  call of one handler; for \<^verbatim>\<open>_crazyflie_connected\<close> it carries the outcomes of the
  two read-backs. An exception that leaves a handler ends in the library's thread and
  not in the monitor, so only the monitor and the events are kept.
\<close>

datatype notification =
    Connected string "exn option" "exn option"
  | Disconnected string
  | Connection_failed string string

fun deliver :: "notification \<Rightarrow> monitor \<Rightarrow> monitor \<times> event list" where
  "deliver (Connected uri fw bat) m = snd (cb_crazyflie_connected fw bat uri m)"
| "deliver (Disconnected uri) m = snd (cb_crazyflie_disconnected uri m)"
| "deliver (Connection_failed uri msg) m = snd (cb_crazyflie_connection_failed uri msg m)"

fun deliver_all :: "notification list \<Rightarrow> monitor \<Rightarrow> monitor \<times> event list" where
  "deliver_all [] m = (m, [])"
| "deliver_all (n # ns) m =
     (let (m1, ev1) = deliver n m;
          (m2, ev2) = deliver_all ns m1
      in (m2, ev1 @ ev2))"

text \<open>
  The loop \<^verbatim>\<open>while not connected and (time.time() - start_time) < timeout\<close> with
  \<^verbatim>\<open>timeout = 10\<close>, and \<^verbatim>\<open>time.sleep(0.1)\<close> as its body. A poll is one evaluation
  of the loop condition, as the outside world makes it come out: the notifications that
  the link library has delivered since the previous poll (for the first poll: since
  \<^verbatim>\<open>open_link\<close> was called), and the value of \<^verbatim>\<open>time.time() - start_time\<close> in
  seconds, a float taken as the real number it is (its comparison with the integer 10
  is exact). The clock is read only when the flag is false. The loop is run on a list of
  polls; at the end of the list it has not ended, which the first component of the
  result tells.
\<close>

record poll =
  arrived :: "notification list"
  elapsed :: real

fun wait_for_connection :: "poll list \<Rightarrow> monitor \<Rightarrow> bool \<times> monitor \<times> event list" where
  "wait_for_connection [] m = (False, m, [])"
| "wait_for_connection (p # ps) m =
     (case deliver_all (arrived p) m of
        (m1, ev1) \<Rightarrow>
          (if \<not> crazyflie_connected (connection_status m1) \<and> elapsed p < 10
           then (case wait_for_connection ps m1 of
                   (ended, m2, ev2) \<Rightarrow> (ended, m2, ev1 @ Sleep 100 # ev2))
           else (True, m1, ev1)))"

text \<open>\<^verbatim>\<open>connect_to_crazyflie\<close>; \<open>op\<close> is the outcome of \<^verbatim>\<open>open_link\<close>.\<close>

definition connect_to_crazyflie :: "exn option \<Rightarrow> poll list \<Rightarrow> string \<Rightarrow> monitor \<Rightarrow> bool result" where
  "connect_to_crazyflie op polls uri m =
     (let ev0 = [Log INFO [Lit ''Attempting to connect to Crazyflie at '', FmtStr uri], Open_link uri]
      in case op of
           Some e \<Rightarrow>
             (if is_Exception e
              then (Returns False, m,
                    ev0 @ [Log ERROR [Lit (cross_mark @ '' Failed to connect to Crazyflie: ''), FmtExn e]])
              else (Raises e, m, ev0))
         | None \<Rightarrow>
             (case wait_for_connection polls m of
                (ended, m1, ev1) \<Rightarrow>
                  (if \<not> ended then (Unfinished, m1, ev0 @ ev1)
                   else if crazyflie_connected (connection_status m1)
                   then (Returns True, m1\<lparr>crazyflie := Some (Crazyflie uri)\<rparr>,
                         ev0 @ ev1 @ [Log INFO [Lit (check_mark @ '' Crazyflie connected successfully!'')]])
                   else (Returns False, m1,
                         ev0 @ ev1 @ [Log ERROR [Lit (cross_mark @ '' Crazyflie connection timeout'')]]))))"

subsection \<open>The status loop\<close>

fun join :: "string \<Rightarrow> string list \<Rightarrow> string" where
  "join sep [] = []"
| "join sep [x] = x"
| "join sep (x # y # ys) = x @ sep @ join sep (y # ys)"

text \<open>
  One turn of the loop of \<^verbatim>\<open>monitor_connections\<close>, up to the sleep; \<open>iw\<close> is what
  \<^verbatim>\<open>in_waiting\<close> gives, \<open>r\<close> the outcome of reading and decoding one line. The test
  of \<^verbatim>\<open>in_waiting\<close> stands outside the \<^verbatim>\<open>try\<close>.
\<close>

definition monitor_iteration :: "exn + nat \<Rightarrow> exn + string \<Rightarrow> monitor \<Rightarrow> unit result" where
  "monitor_iteration iw r m =
     (let status_msg =
            [if crazyflie_connected (connection_status m)
             then ''Crazyflie: '' @ check_mark else ''Crazyflie: '' @ cross_mark,
             if esp32_connected (connection_status m)
             then ''ESP32: '' @ check_mark else ''ESP32: '' @ cross_mark];
          ev0 = [Log INFO [Lit ''Status: '', FmtStr (join '' | '' status_msg)]]
      in case esp32_serial m of
           None \<Rightarrow> (Returns (), m, ev0)
         | Some s \<Rightarrow>
             (let ev1 = ev0 @ [Serial_in_waiting]
              in case iw of
                   Inl e \<Rightarrow> (Raises e, m, ev1)
                 | Inr n \<Rightarrow>
                     (if n = 0 then (Returns (), m, ev1)
                      else
                        (let ev2 = ev1 @ [Serial_readline]
                         in case r of
                              Inl e \<Rightarrow>
                                (if is_Exception e
                                 then (Returns (), m,
                                       ev2 @ [Log WARNING [Lit ''Error reading ESP32 data: '', FmtExn e]])
                                 else (Raises e, m, ev2))
                            | Inr text \<Rightarrow>
                                (let data = strip text
                                 in if data \<noteq> []
                                    then (Returns (), m, ev2 @ [Log INFO [Lit ''ESP32 data: '', FmtStr data]])
                                    else (Returns (), m, ev2))))))"

text \<open>
  The loop runs in a thread of its own until another thread clears \<^verbatim>\<open>monitoring\<close>.
  A tick is what the outside does during one turn: the answers of the serial port, the
  link notifications that arrive during the sleep of two seconds, and whether
  \<^verbatim>\<open>monitoring\<close> is cleared meanwhile. The loop is run on a list of ticks; when the
  list ends with \<^verbatim>\<open>monitoring\<close> still set, the loop has not returned: \<open>None\<close>.
\<close>

record tick =
  in_waiting_result :: "exn + nat"
  readline_result :: "exn + string"
  arrivals :: "notification list"
  stop_requested :: bool

fun monitor_loop :: "tick list \<Rightarrow> monitor \<Rightarrow> unit outcome option \<times> monitor \<times> event list" where
  "monitor_loop [] m = (if monitoring m then (None, m, []) else (Some (Returns ()), m, []))"
| "monitor_loop (tk # ticks) m =
     (if monitoring m
      then (case monitor_iteration (in_waiting_result tk) (readline_result tk) m of
              (Raises e, m1, ev1) \<Rightarrow> (Some (Raises e), m1, ev1)
            | (Unfinished, m1, ev1) \<Rightarrow> (None, m1, ev1)
            | (Returns u, m1, ev1) \<Rightarrow>
                (let (m2, ev2) = deliver_all (arrivals tk) m1;
                     m3 = (if stop_requested tk then m2\<lparr>monitoring := False\<rparr> else m2);
                     (res, m4, ev3) = monitor_loop ticks m3
                 in (res, m4, ev1 @ Sleep 2000 # ev2 @ ev3)))
      else (Some (Returns ()), m, []))"

definition monitor_connections :: "tick list \<Rightarrow> monitor \<Rightarrow> unit outcome option \<times> monitor \<times> event list" where
  "monitor_connections ticks m =
     (let (res, m1, evs) = monitor_loop ticks (m\<lparr>monitoring := True\<rparr>)
      in (res, m1, Log INFO [Lit ''Starting connection monitoring...''] # evs))"

subsection \<open>The main program\<close>

text \<open>
  Sequencing: the second step runs if the first returns; the events add up. An
  exception or an unfinished call ends the sequence.
\<close>

definition then_do :: "'a result \<Rightarrow> ('a \<Rightarrow> monitor \<Rightarrow> 'b result) \<Rightarrow> 'b result" where
  "then_do r f =
     (case r of
        (Returns a, m, ev) \<Rightarrow> (case f a m of (r1, m1, ev1) \<Rightarrow> (r1, m1, ev @ ev1))
      | (Raises e, m, ev) \<Rightarrow> (Raises e, m, ev)
      | (Unfinished, m, ev) \<Rightarrow> (Unfinished, m, ev))"

text \<open>
  The command loop; each element of the list is one turn: what \<^verbatim>\<open>input\<close> returns
  or raises, and the outcomes of the serial write and of the read-back that the command
  may make. At the end of the list the input is at its end and \<^verbatim>\<open>input\<close> raises
  \<^verbatim>\<open>EOFError\<close>.
\<close>

record command_io =
  input_result :: "exn + string"
  write_result :: "exn option"
  read_back_result :: "exn option"

definition prompt :: string where
  "prompt = nl @ ''Enter command (help, test, power, quit): ''"

definition help_text :: "event list" where
  "help_text =
     [Print ''Available commands:'',
      Print ''  help   - Show this help'',
      Print ''  test   - Test power connection'',
      Print ''  power  - Send power test to ESP32'',
      Print ''  quit   - Exit program'']"

fun command_loop :: "command_io list \<Rightarrow> monitor \<Rightarrow> unit result" where
  "command_loop [] m = (Returns (), m, [Input prompt])"
| "command_loop (c # cs) m =
     (case input_result c of
        Inl e \<Rightarrow>
          (if e = KeyboardInterrupt \<or> e = EOFError then (Returns (), m, [Input prompt])
           else (Raises e, m, [Input prompt]))
      | Inr text \<Rightarrow>
          (let command = lower (strip text)
           in if command = ''quit'' then (Returns (), m, [Input prompt])
              else if command = ''help''
              then (case command_loop cs m of (res, m1, evs) \<Rightarrow> (res, m1, Input prompt # help_text @ evs))
              else if command = ''test''
              then (case test_power_connection (write_result c) (read_back_result c) m of
                      (Returns b, m1, ev1) \<Rightarrow>
                        (case command_loop cs m1 of (res, m2, evs) \<Rightarrow> (res, m2, Input prompt # ev1 @ evs))
                    | (Raises e, m1, ev1) \<Rightarrow>
                        (if e = KeyboardInterrupt \<or> e = EOFError then (Returns (), m1, Input prompt # ev1)
                         else (Raises e, m1, Input prompt # ev1))
                    | (Unfinished, m1, ev1) \<Rightarrow> (Unfinished, m1, Input prompt # ev1))
              else if command = ''power''
              then (case send_esp32_command (write_result c) ''POWER_TEST'' m of
                      (Returns u, m1, ev1) \<Rightarrow>
                        (case command_loop cs m1 of (res, m2, evs) \<Rightarrow> (res, m2, Input prompt # ev1 @ evs))
                    | (Raises e, m1, ev1) \<Rightarrow>
                        (if e = KeyboardInterrupt \<or> e = EOFError then (Returns (), m1, Input prompt # ev1)
                         else (Raises e, m1, Input prompt # ev1))
                    | (Unfinished, m1, ev1) \<Rightarrow> (Unfinished, m1, Input prompt # ev1))
              else (case command_loop cs m of
                      (res, m1, evs) \<Rightarrow>
                        (res, m1,
                         Input prompt # Print ''Unknown command. Type 'help' for available commands.'' # evs))))"

text \<open>
  What the outside world answers during one run of \<^verbatim>\<open>main\<close>. The status loop runs
  in its own thread; of it, \<^verbatim>\<open>main\<close> only has the start.
\<close>

record env =
  init_drivers_result :: "exn option"
  scan_interfaces_result :: "exn + (string \<times> string) list"
  comports_result :: "exn + port_info list"
  open_link_result :: "exn option"
  link_polls :: "poll list"
  serial_open_result :: "exn option"
  ping_write_result :: "exn option"
  ping_read_result :: "exn + string"
  console :: "command_io list"
  close_link_result :: "exn option"
  serial_close_result :: "exn option"

definition banner :: "event list" where
  "banner =
     [Print (replicate 60 CHR ''=''),
      Print ''ESP32S3 - Crazyflie Connection Monitor'',
      Print (replicate 60 CHR ''=''),
      Print ''This script will help you debug the connection between'',
      Print ''your Xiao Sense ESP32S3 and Crazyflie via jumper cables.'',
      Print ''Make sure you have connected:'',
      Print ''  - 3V3 from ESP32 to VCC on Crazyflie breakout'',
      Print ''  - GND from ESP32 to GND on Crazyflie breakout'',
      Print (replicate 60 CHR ''='')]"

definition no_crazyflie_report :: "event list" where
  "no_crazyflie_report =
     [Log ERROR [Lit ''No Crazyflie devices found!''],
      Print (nl @ ''Troubleshooting:''),
      Print ''1. Make sure Crazyflie is powered on'',
      Print ''2. Check USB connection'',
      Print ''3. Try different USB port'']"

definition no_esp32_report :: "event list" where
  "no_esp32_report =
     [Log WARNING [Lit ''No ESP32 serial ports found!''],
      Print (nl @ ''Troubleshooting:''),
      Print ''1. Make sure ESP32 is connected via USB'',
      Print ''2. Check if ESP32 is powered on'',
      Print ''3. Try different USB cable'']"

definition start_monitoring :: "event list" where
  "start_monitoring =
     [Print (nl @ ''Starting connection monitoring...''),
      Print ''Press Ctrl+C to stop'',
      Print (replicate 60 CHR ''-''),
      Thread_start]"

text \<open>The steps of \<^verbatim>\<open>main\<close> after the link has connected.\<close>

definition main_serial :: "env \<Rightarrow> string list \<Rightarrow> monitor \<Rightarrow> unit result" where
  "main_serial env esp32_ports m =
     (case esp32_ports of
        [] \<Rightarrow> (Returns (), m, [])
      | port # ports \<Rightarrow>
          then_do
            (connect_to_esp32 (serial_open_result env) (ping_write_result env) (ping_read_result env)
               port default_baudrate m)
            (\<lambda>ok m1.
               (Returns (), m1,
                [if ok then Log INFO [Lit ''ESP32 connection successful!'']
                 else Log WARNING [Lit ''Failed to connect to ESP32'']])))"

definition main_interactive :: "env \<Rightarrow> string list \<Rightarrow> monitor \<Rightarrow> unit result" where
  "main_interactive env esp32_ports m =
     then_do (main_serial env esp32_ports m)
       (\<lambda>u m1. then_do (Returns (), m1, start_monitoring) (\<lambda>u m2. command_loop (console env) m2))"

text \<open>The body of the \<^verbatim>\<open>try\<close> of \<^verbatim>\<open>main\<close>.\<close>

definition main_body :: "env \<Rightarrow> monitor \<Rightarrow> unit result" where
  "main_body env m =
     then_do (initialize_crazyflie_drivers (init_drivers_result env) (scan_interfaces_result env) m)
       (\<lambda>crazyflie_devices m1.
          then_do (scan_esp32_ports (comports_result env) m1)
            (\<lambda>esp32_ports m2.
               case crazyflie_devices of
                 [] \<Rightarrow> (Returns (), m2, no_crazyflie_report)
               | dev # devs \<Rightarrow>
                   then_do (Returns (), m2, if esp32_ports = [] then no_esp32_report else [])
                     (\<lambda>u m3.
                        then_do (connect_to_crazyflie (open_link_result env) (link_polls env) (fst dev) m3)
                          (\<lambda>ok m4.
                             if ok
                             then then_do (Returns (), m4, [Log INFO [Lit ''Crazyflie connection successful!'']])
                                    (\<lambda>u m5. main_interactive env esp32_ports m5)
                             else (Returns (), m4, [Log ERROR [Lit ''Failed to connect to Crazyflie'']])))))"

text \<open>
  \<^verbatim>\<open>main\<close>: the banner, a fresh monitor, the body, the handler of
  \<^verbatim>\<open>KeyboardInterrupt\<close> and the \<^verbatim>\<open>finally\<close> clause. Any other exception leaves
  \<^verbatim>\<open>main\<close> after the \<^verbatim>\<open>finally\<close> clause. While the body is unfinished,
  neither is reached.
\<close>

definition main :: "env \<Rightarrow> unit result" where
  "main env =
     (case main_body env init_monitor of
        (res, m, evs) \<Rightarrow>
          (if res = Unfinished then (Unfinished, m, banner @ evs)
           else
             (let (res1, ev1) =
                    (if res = Raises KeyboardInterrupt
                     then (Returns (), [Print (nl @ ''Stopping monitor...'')])
                     else (res, []))
              in case cleanup (close_link_result env) (serial_close_result env) m of
                   (res2, m1, ev2) \<Rightarrow>
                     (case res2 of
                        Returns u \<Rightarrow> (res1, m1, banner @ evs @ ev1 @ ev2 @ [Print ''Monitor stopped.''])
                      | Raises e \<Rightarrow> (Raises e, m1, banner @ evs @ ev1 @ ev2)
                      | Unfinished \<Rightarrow> (Unfinished, m1, banner @ evs @ ev1 @ ev2)))))"

subsection \<open>Observations on a run, and sample monitors\<close>

fun is_log :: "event \<Rightarrow> bool" where
  "is_log (Log l msg) = True"
| "is_log ev = False"

fun is_close :: "event \<Rightarrow> bool" where
  "is_close Close_link = True"
| "is_close Serial_close = True"
| "is_close ev = False"

fun is_serial_write :: "event \<Rightarrow> bool" where
  "is_serial_write (Serial_write bytes) = True"
| "is_serial_write ev = False"

text \<open>
  The monitor after the serial port opened and the probe raised; the same with
  \<^verbatim>\<open>esp32_connected\<close> set; and a monitor with both peripherals connected.
\<close>

definition probe_failed_monitor :: monitor where
  "probe_failed_monitor = init_monitor\<lparr>esp32_serial := Some (Serial ''/dev/ttyUSB0'' 115200)\<rparr>"

definition serial_ready_monitor :: monitor where
  "serial_ready_monitor = set_esp32_connected True probe_failed_monitor"

definition both_open_monitor :: monitor where
  "both_open_monitor =
     set_crazyflie_connected True
       (serial_ready_monitor\<lparr>crazyflie := Some (Crazyflie ''radio://0/80/2M'')\<rparr>)"

text \<open>
  Events that act on a peripheral, start the status loop or enter the command surface:
  everything but log lines, console output and the three discovery calls.
\<close>

fun further_action :: "event \<Rightarrow> bool" where
  "further_action (Log l msg) = False"
| "further_action (Print s) = False"
| "further_action Init_drivers = False"
| "further_action Scan_interfaces = False"
| "further_action Comports = False"
| "further_action ev = True"

fun is_param_get :: "event \<Rightarrow> bool" where
  "is_param_get (Param_get_value name) = True"
| "is_param_get ev = False"




text \<open>
  Sample runs of the wait loop, one turn of which takes 100.3 ms. The link connects
  during the third sleep; nothing arrives during 101 polls, of which the last reads
  10.03 s; the link connects and is lost again during the first sleep.
\<close>

definition reading :: "nat \<Rightarrow> real" where
  "reading k = real k * 1003 / 10000"

definition prompt_polls :: "poll list" where
  "prompt_polls =
     [\<lparr>arrived = [], elapsed = reading 0\<rparr>,
      \<lparr>arrived = [], elapsed = reading 1\<rparr>,
      \<lparr>arrived = [], elapsed = reading 2\<rparr>,
      \<lparr>arrived = [Connected ''radio://0/80/2M'' None None], elapsed = reading 3\<rparr>]"



text \<open>Three serial ports, and a run of \<^verbatim>\<open>main\<close> in which the scan finds no Crazyflie.\<close>

definition sample_ports :: "port_info list" where
  "sample_ports =
     [\<lparr>device = ''/dev/ttyUSB0'', description = ''USB-Serial CH340''\<rparr>,
      \<lparr>device = ''/dev/ttyS0'', description = ''n/a''\<rparr>,
      \<lparr>device = ''/dev/ttyACM0'', description = ''Seeed XIAO ESP32S3''\<rparr>]"

definition no_radio_env :: env where
  "no_radio_env =
     \<lparr> init_drivers_result = None, scan_interfaces_result = Inr [],
       comports_result = Inr sample_ports,
       open_link_result = None, link_polls = [],
       serial_open_result = None, ping_write_result = None, ping_read_result = Inr ''PONG'',
       console = [], close_link_result = None, serial_close_result = None \<rparr>"

section \<open>Properties\<close>

subsection \<open>Link notifications\<close>

text \<open>
  C9. The handler of the disconnected notification is idempotent on the status: after
  it has fired, \<^verbatim>\<open>crazyflie_connected\<close> is false, whatever the monitor was before;
  after a second firing in a row it is false again, and the second firing leaves the
  monitor as the first one left it. The handler returns normally.
\<close>

theorem disconnected_idempotent:
  "fst (cb_crazyflie_disconnected uri m) = Returns ()
   \<and> \<not> crazyflie_connected (connection_status (fst (snd (cb_crazyflie_disconnected uri m))))
   \<and> \<not> crazyflie_connected (connection_status
          (fst (snd (cb_crazyflie_disconnected uri2 (fst (snd (cb_crazyflie_disconnected uri m)))))))
   \<and> fst (snd (cb_crazyflie_disconnected uri2 (fst (snd (cb_crazyflie_disconnected uri m)))))
       = fst (snd (cb_crazyflie_disconnected uri m))"
  by (simp add: cb_crazyflie_disconnected_def set_crazyflie_connected_def)

theorem disconnected_idempotent_witness:
  "\<not> crazyflie_connected (connection_status
        (fst (snd (cb_crazyflie_disconnected ''radio://0/80/2M'' both_open_monitor))))
   \<and> fst (snd (cb_crazyflie_disconnected ''radio://0/80/2M''
              (fst (snd (cb_crazyflie_disconnected ''radio://0/80/2M'' both_open_monitor)))))
       = fst (snd (cb_crazyflie_disconnected ''radio://0/80/2M'' both_open_monitor))"
  using disconnected_idempotent [of "''radio://0/80/2M''" both_open_monitor "''radio://0/80/2M''"]
  by simp

text \<open>
  C6. A connected notification that reaches a monitor with no stored link handle sets
  \<^verbatim>\<open>crazyflie_connected\<close> and logs the connection, and requests neither the
  firmware revision nor the battery voltage. The handle is stored by
  \<^verbatim>\<open>connect_to_crazyflie\<close> only after its wait loop has seen the flag, so this is
  the notification of every first connection: a fresh monitor whose link connects
  during the third sleep returns \<^verbatim>\<open>True\<close> from \<^verbatim>\<open>connect_to_crazyflie\<close>
  without a single parameter request.
\<close>

theorem connected_without_handle_reads_nothing:
  "crazyflie init_monitor = None
   \<and> cb_crazyflie_connected None None ''radio://0/80/2M'' init_monitor
     = (Returns (), set_crazyflie_connected True init_monitor,
        [Log INFO [Lit (check_mark @ '' Crazyflie connected: ''), FmtStr ''radio://0/80/2M'']])
   \<and> fst (connect_to_crazyflie None prompt_polls ''radio://0/80/2M'' init_monitor) = Returns True
   \<and> filter is_param_get
         (snd (snd (connect_to_crazyflie None prompt_polls ''radio://0/80/2M'' init_monitor))) = []"
  by (simp add: connect_to_crazyflie_def prompt_polls_def reading_def
      cb_crazyflie_connected_def init_monitor_def set_crazyflie_connected_def)

subsection \<open>Commands to the serial peripheral\<close>

text \<open>
  C2. When \<^verbatim>\<open>crazyflie_connected\<close> is false or \<^verbatim>\<open>esp32_connected\<close> is false,
  \<^verbatim>\<open>test_power_connection\<close> logs which peripheral is missing (the link peripheral
  when both are), returns \<^verbatim>\<open>False\<close>, leaves the monitor as it is and does nothing
  else: in particular it writes nothing to the serial peripheral, whatever the write
  and the read-back would have answered.
\<close>

theorem test_power_connection_guard:
  "\<not> crazyflie_connected (connection_status m) \<or> \<not> esp32_connected (connection_status m) \<Longrightarrow>
   test_power_connection w p m =
     (Returns False, m,
      [Log INFO [Lit ''Testing power connection...''],
       Log ERROR [Lit (if \<not> crazyflie_connected (connection_status m)
                       then ''Cannot test power connection - Crazyflie not connected''
                       else ''Cannot test power connection - ESP32 not connected'')]])
   \<and> filter is_serial_write (snd (snd (test_power_connection w p m))) = []"
  by (auto simp: test_power_connection_def)

theorem test_power_connection_guard_witness:
  "\<not> crazyflie_connected (connection_status serial_ready_monitor)
   \<and> test_power_connection None None serial_ready_monitor =
       (Returns False, serial_ready_monitor,
        [Log INFO [Lit ''Testing power connection...''],
         Log ERROR [Lit ''Cannot test power connection - Crazyflie not connected'']])
   \<and> filter is_serial_write (snd (snd (test_power_connection None None serial_ready_monitor))) = []"
proof -
  have c: "\<not> crazyflie_connected (connection_status serial_ready_monitor)"
    by (simp add: serial_ready_monitor_def probe_failed_monitor_def init_monitor_def
        set_esp32_connected_def)
  then have h: "\<not> crazyflie_connected (connection_status serial_ready_monitor)
             \<or> \<not> esp32_connected (connection_status serial_ready_monitor)"
    by simp
  show ?thesis
    using h c test_power_connection_guard [OF h, of None None] by simp
qed

text \<open>
  C1, as the code has it. \<^verbatim>\<open>send_esp32_command\<close> returns \<^verbatim>\<open>None\<close> on every
  path that returns, so the caller is told neither ok nor rejected. When no serial
  handle is stored or \<^verbatim>\<open>esp32_connected\<close> is false, it writes nothing and logs the
  error that the ESP32 is not connected, for every text. When a handle is stored and
  \<^verbatim>\<open>esp32_connected\<close> is true, it writes the text followed by a line terminator
  and logs the command; an exception of class \<^verbatim>\<open>Exception\<close> raised by the write
  is caught and logged as an error.
\<close>

theorem send_esp32_command_gate:
  "(esp32_serial m = None \<or> \<not> esp32_connected (connection_status m) \<longrightarrow>
      send_esp32_command w command m = (Returns (), m, [Log ERROR [Lit ''ESP32 not connected'']]))
   \<and> (esp32_serial m \<noteq> None \<and> esp32_connected (connection_status m) \<longrightarrow>
        send_esp32_command None command m =
          (Returns (), m,
           [Serial_write (command @ nl), Log INFO [Lit ''Sent command to ESP32: '', FmtStr command]]))
   \<and> (esp32_serial m \<noteq> None \<and> esp32_connected (connection_status m) \<and> is_Exception e \<longrightarrow>
        send_esp32_command (Some e) command m =
          (Returns (), m,
           [Serial_write (command @ nl), Log ERROR [Lit ''Failed to send command to ESP32: '', FmtExn e]]))"
  by (auto simp: send_esp32_command_def)

theorem send_esp32_command_gate_witness:
  "esp32_serial init_monitor = None
   \<and> send_esp32_command None ''POWER_TEST'' init_monitor
       = (Returns (), init_monitor, [Log ERROR [Lit ''ESP32 not connected'']])
   \<and> esp32_serial serial_ready_monitor \<noteq> None
   \<and> esp32_connected (connection_status serial_ready_monitor)
   \<and> is_Exception (Exception ''write timeout'')
   \<and> send_esp32_command None ''POWER_TEST'' serial_ready_monitor
       = (Returns (), serial_ready_monitor,
          [Serial_write (''POWER_TEST'' @ nl),
           Log INFO [Lit ''Sent command to ESP32: '', FmtStr ''POWER_TEST'']])
   \<and> send_esp32_command (Some (Exception ''write timeout'')) ''POWER_TEST'' serial_ready_monitor
       = (Returns (), serial_ready_monitor,
          [Serial_write (''POWER_TEST'' @ nl),
           Log ERROR [Lit ''Failed to send command to ESP32: '', FmtExn (Exception ''write timeout'')]])"
proof -
  have a: "esp32_serial init_monitor = None"
    by (simp add: init_monitor_def)
  have b: "esp32_serial serial_ready_monitor \<noteq> None \<and> esp32_connected (connection_status serial_ready_monitor)"
    by (simp add: serial_ready_monitor_def probe_failed_monitor_def init_monitor_def
        set_esp32_connected_def)
  show ?thesis
    using a b
      send_esp32_command_gate [of init_monitor None "''POWER_TEST''" "Exception ''write timeout''"]
      send_esp32_command_gate [of serial_ready_monitor None "''POWER_TEST''" "Exception ''write timeout''"]
    by simp
qed

text \<open>
  C1 as stated fails: with a serial handle stored and \<^verbatim>\<open>esp32_connected\<close> false
  (the monitor after a probe that raised), the command is not written; and the value
  returned after a successful write is the value returned when no handle is stored.
\<close>

theorem send_esp32_command_counterexample:
  "esp32_serial probe_failed_monitor \<noteq> None
   \<and> send_esp32_command None ''POWER_TEST'' probe_failed_monitor
       = (Returns (), probe_failed_monitor, [Log ERROR [Lit ''ESP32 not connected'']])
   \<and> fst (send_esp32_command None ''POWER_TEST'' serial_ready_monitor)
       = fst (send_esp32_command None ''POWER_TEST'' init_monitor)"
  by (simp add: send_esp32_command_def probe_failed_monitor_def serial_ready_monitor_def
      init_monitor_def set_esp32_connected_def)

subsection \<open>Connecting the serial peripheral\<close>

text \<open>
  C5, as the code has it. When the port opens and the probe is written and read without
  an exception, \<^verbatim>\<open>connect_to_esp32\<close> returns \<^verbatim>\<open>True\<close> with
  \<^verbatim>\<open>esp32_connected\<close> set and the handle stored, whatever line was read; when the
  line is empty after stripping, the only log line after the attempt is a warning.
\<close>

theorem connect_to_esp32_permissive:
  "fst (connect_to_esp32 None None (Inr text) port baudrate m) = Returns True
   \<and> esp32_connected (connection_status (fst (snd (connect_to_esp32 None None (Inr text) port baudrate m))))
   \<and> esp32_serial (fst (snd (connect_to_esp32 None None (Inr text) port baudrate m)))
       = Some (Serial port baudrate)
   \<and> (strip text = [] \<longrightarrow>
        filter is_log (snd (snd (connect_to_esp32 None None (Inr text) port baudrate m))) =
          [Log INFO [Lit ''Attempting to connect to ESP32 at '', FmtStr port,
                     Lit '' (baudrate: '', FmtInt baudrate, Lit '')''],
           Log WARNING [Lit (warning_sign @ '' ESP32 connected but no response to ping'')]])"
  by (simp add: connect_to_esp32_def set_esp32_connected_def Let_def)

text \<open>A reply of a no-break space and a line feed is empty after stripping.\<close>

theorem connect_to_esp32_permissive_witness:
  "strip [CHR 0xC2, CHR 0xA0, CHR 0x0A] = []
   \<and> fst (connect_to_esp32 None None (Inr [CHR 0xC2, CHR 0xA0, CHR 0x0A]) ''/dev/ttyUSB0'' 115200
          init_monitor) = Returns True
   \<and> esp32_connected (connection_status
        (fst (snd (connect_to_esp32 None None (Inr [CHR 0xC2, CHR 0xA0, CHR 0x0A]) ''/dev/ttyUSB0'' 115200
           init_monitor))))
   \<and> filter is_log (snd (snd (connect_to_esp32 None None (Inr [CHR 0xC2, CHR 0xA0, CHR 0x0A])
          ''/dev/ttyUSB0'' 115200 init_monitor))) =
          [Log INFO [Lit ''Attempting to connect to ESP32 at '', FmtStr ''/dev/ttyUSB0'',
                     Lit '' (baudrate: '', FmtInt 115200, Lit '')''],
           Log WARNING [Lit (warning_sign @ '' ESP32 connected but no response to ping'')]]"
proof -
  have h: "strip [CHR 0xC2, CHR 0xA0, CHR 0x0A] = []"
    by (simp add: strip_def lstrip_of.simps whitespace_def)
  show ?thesis
    using h connect_to_esp32_permissive
      [of "[CHR 0xC2, CHR 0xA0, CHR 0x0A]" "''/dev/ttyUSB0''" 115200 init_monitor]
    by simp
qed

text \<open>
  C5 as stated fails: the port opens, and the write of the probe times out, or the
  reply cannot be decoded; \<^verbatim>\<open>connect_to_esp32\<close> returns \<^verbatim>\<open>False\<close> and
  \<^verbatim>\<open>esp32_connected\<close> is not set.
\<close>

theorem connect_to_esp32_counterexample:
  "fst (connect_to_esp32 None (Some (Exception ''Write timeout'')) (Inr ''PONG'') ''/dev/ttyUSB0'' 115200
          init_monitor) = Returns False
   \<and> \<not> esp32_connected (connection_status
        (fst (snd (connect_to_esp32 None (Some (Exception ''Write timeout'')) (Inr ''PONG'')
           ''/dev/ttyUSB0'' 115200 init_monitor))))
   \<and> fst (connect_to_esp32 None None (Inl (Exception ''invalid start byte'')) ''/dev/ttyUSB0'' 115200
          init_monitor) = Returns False
   \<and> \<not> esp32_connected (connection_status
        (fst (snd (connect_to_esp32 None None (Inl (Exception ''invalid start byte''))
           ''/dev/ttyUSB0'' 115200 init_monitor))))"
  by (simp add: connect_to_esp32_def esp32_failed_def init_monitor_def)

text \<open>
  C10. When the port opens and the write or the read of the probe raises an exception
  of class \<^verbatim>\<open>Exception\<close>, \<^verbatim>\<open>connect_to_esp32\<close> returns \<^verbatim>\<open>False\<close> and changes
  nothing but the stored handle: \<^verbatim>\<open>esp32_connected\<close> stays false, the port is not
  closed, the handle stays stored. The status loop, started on that monitor, reads a
  line from the port in its first turn as soon as input is waiting.
\<close>

theorem probe_failure_leaves_port_open:
  assumes "is_Exception e"
    and "w = Some e \<or> (w = None \<and> r = Inl e)"
    and "\<not> esp32_connected (connection_status m)"
    and "in_waiting_result tk = Inr n" and "0 < n"
  shows "fst (connect_to_esp32 None w r port baudrate m) = Returns False
    \<and> fst (snd (connect_to_esp32 None w r port baudrate m)) = m\<lparr>esp32_serial := Some (Serial port baudrate)\<rparr>
    \<and> \<not> esp32_connected (connection_status (fst (snd (connect_to_esp32 None w r port baudrate m))))
    \<and> Serial_close \<notin> set (snd (snd (connect_to_esp32 None w r port baudrate m)))
    \<and> Serial_readline \<in> set (snd (snd
          (monitor_connections (tk # ticks) (fst (snd (connect_to_esp32 None w r port baudrate m))))))"
proof -
  let ?m1 = "m\<lparr>esp32_serial := Some (Serial port baudrate)\<rparr>"
  have c: "connect_to_esp32 None w r port baudrate m =
      (Returns False, ?m1,
       [Log INFO [Lit ''Attempting to connect to ESP32 at '', FmtStr port,
                  Lit '' (baudrate: '', FmtInt baudrate, Lit '')''],
        Serial_open port baudrate, Serial_write (''PING'' @ nl)]
       @ (if w = None then [Serial_readline] else [])
       @ [Log ERROR [Lit (cross_mark @ '' Failed to connect to ESP32: ''), FmtExn e]])"
    using assms(1,2) by (auto simp: connect_to_esp32_def esp32_failed_def)
  have i: "Serial_readline \<in> set (snd (snd (monitor_iteration (Inr n) rd m2)))"
    if "esp32_serial m2 \<noteq> None" for rd m2
    using assms(5) that by (auto simp: monitor_iteration_def Let_def split: sum.splits)
  have l: "Serial_readline \<in> set (snd (snd (monitor_connections (tk # ticks) ?m1)))"
    using i [of "?m1\<lparr>monitoring := True\<rparr>" "readline_result tk"] assms(4)
    by (auto simp: monitor_connections_def split: prod.splits outcome.splits)
  show ?thesis
    using assms(3) l by (simp add: c)
qed

theorem probe_failure_leaves_port_open_witness:
  "is_Exception (Exception ''write timeout'')
   \<and> \<not> esp32_connected (connection_status init_monitor)
   \<and> fst (connect_to_esp32 None (Some (Exception ''write timeout'')) (Inr []) ''/dev/ttyUSB0'' 115200
          init_monitor) = Returns False
   \<and> fst (snd (connect_to_esp32 None (Some (Exception ''write timeout'')) (Inr []) ''/dev/ttyUSB0'' 115200
          init_monitor)) = probe_failed_monitor
   \<and> Serial_readline \<in> set (snd (snd
        (monitor_connections
           [\<lparr>in_waiting_result = Inr 5, readline_result = Inr ''hello'', arrivals = [],
             stop_requested = True\<rparr>]
           probe_failed_monitor)))"
proof -
  have a: "is_Exception (Exception ''write timeout'')" by simp
  have b: "\<not> esp32_connected (connection_status init_monitor)"
    by (simp add: init_monitor_def)
  have c: "in_waiting_result \<lparr>in_waiting_result = Inr 5, readline_result = Inr ''hello'', arrivals = [],
             stop_requested = True\<rparr> = Inr (5::nat)"
    by simp
  have d: "(0::nat) < 5" by simp
  have e: "Some (Exception ''write timeout'') = Some (Exception ''write timeout'')
             \<or> (Some (Exception ''write timeout'') = None \<and> Inr [] = Inl (Exception ''write timeout''))"
    by simp
  note t = probe_failure_leaves_port_open [where port = "''/dev/ttyUSB0''" and baudrate = 115200
      and ticks = "[]", OF a e b c d]
  from t have f: "fst (snd (connect_to_esp32 None (Some (Exception ''write timeout'')) (Inr [])
      ''/dev/ttyUSB0'' 115200 init_monitor)) = probe_failed_monitor"
    by (simp add: probe_failed_monitor_def)
  from t show ?thesis
    unfolding f using a b by simp
qed

subsection \<open>Teardown\<close>

text \<open>
  C7, as the code has it. \<^verbatim>\<open>cleanup\<close> never raises, clears \<^verbatim>\<open>monitoring\<close> and
  changes nothing else. For every combination of outcomes of the two closes it attempts
  to close each peripheral whose handle is stored, the link first and the serial port
  second. A close that raises is swallowed without a log line: the log holds the
  opening line and one line for each close that succeeded.
\<close>

theorem cleanup_best_effort:
  "fst (cleanup cl cs m) = Returns ()
   \<and> fst (snd (cleanup cl cs m)) = m\<lparr>monitoring := False\<rparr>
   \<and> filter is_close (snd (snd (cleanup cl cs m)))
       = (if crazyflie m = None then [] else [Close_link])
         @ (if esp32_serial m = None then [] else [Serial_close])
   \<and> filter is_log (snd (snd (cleanup cl cs m)))
       = Log INFO [Lit ''Cleaning up connections...'']
         # (if crazyflie m \<noteq> None \<and> cl = None then [Log INFO [Lit ''Crazyflie connection closed'']] else [])
         @ (if esp32_serial m \<noteq> None \<and> cs = None then [Log INFO [Lit ''ESP32 serial connection closed'']] else [])"
  by (auto simp: cleanup_def split: option.splits)

theorem cleanup_best_effort_witness:
  "fst (cleanup (Some KeyboardInterrupt) None both_open_monitor) = Returns ()
   \<and> filter is_close (snd (snd (cleanup (Some KeyboardInterrupt) None both_open_monitor)))
       = [Close_link, Serial_close]
   \<and> filter is_log (snd (snd (cleanup (Some KeyboardInterrupt) None both_open_monitor)))
       = [Log INFO [Lit ''Cleaning up connections...''],
          Log INFO [Lit ''ESP32 serial connection closed'']]"
proof -
  have h: "crazyflie both_open_monitor \<noteq> None \<and> esp32_serial both_open_monitor \<noteq> None"
    by (simp add: both_open_monitor_def serial_ready_monitor_def probe_failed_monitor_def
        init_monitor_def set_esp32_connected_def set_crazyflie_connected_def)
  show ?thesis
    using h cleanup_best_effort [of "Some KeyboardInterrupt" None both_open_monitor] by simp
qed

text \<open>
  C7 as stated fails: when both closes raise, the log of \<^verbatim>\<open>cleanup\<close> holds its
  opening line and nothing about either error.
\<close>

theorem cleanup_counterexample:
  "filter is_log (snd (snd (cleanup (Some (Exception ''link lost'')) (Some (Exception ''port busy''))
       both_open_monitor)))
     = [Log INFO [Lit ''Cleaning up connections...'']]"
  by (simp add: cleanup_def both_open_monitor_def serial_ready_monitor_def probe_failed_monitor_def
      init_monitor_def set_esp32_connected_def set_crazyflie_connected_def)

subsection \<open>Device discovery\<close>

lemma str_in_sublist: "str_in k s \<longleftrightarrow> sublist k s"
  by (induction s) (simp_all add: sublist_Cons_right)

lemma sublist_map_iff: "sublist k (map f s) \<longleftrightarrow> (\<exists>w. sublist w s \<and> map f w = k)"
proof
  assume "sublist k (map f s)"
  then obtain ps ss where "map f s = ps @ k @ ss"
    by (auto simp: sublist_def)
  then obtain a vs where 1: "s = a @ vs" and "map f vs = k @ ss"
    by (metis map_eq_append_conv)
  then obtain b c where 2: "vs = b @ c" and 3: "map f b = k"
    by (metis map_eq_append_conv)
  from 1 2 3 have "s = a @ b @ c \<and> map f b = k"
    by simp
  then show "\<exists>w. sublist w s \<and> map f w = k"
    by (auto simp: sublist_def)
next
  assume "\<exists>w. sublist w s \<and> map f w = k"
  then obtain w ps ss where "s = ps @ w @ ss" and "map f w = k"
    by (auto simp: sublist_def)
  then have "map f s = map f ps @ k @ map f ss"
    by simp
  then show "sublist k (map f s)"
    unfolding sublist_def by blast
qed

lemma scan_ports_loop_filter:
  "fst (scan_ports_loop ports acc) =
     acc @ map device
       (filter (\<lambda>port. list_ex (\<lambda>keyword. str_in keyword (lower (description port))) esp32_keywords) ports)"
  by (induction ports arbitrary: acc) (simp_all add: Let_def split_beta)

text \<open>
  C4. When \<^verbatim>\<open>init_drivers\<close>, \<^verbatim>\<open>scan_interfaces\<close> or \<^verbatim>\<open>comports\<close> raises an
  error (an exception of class \<^verbatim>\<open>Exception\<close>), the discovery method returns the
  empty list and raises nothing. When the scans return, link discovery returns the
  scan's list as it is, and serial discovery returns the devices, in order, of exactly
  those ports whose description has a substring that is one of the four keywords up to
  the case of its letters.
\<close>

theorem discovery_never_fails:
  "(is_Exception e \<longrightarrow>
      fst (initialize_crazyflie_drivers (Some e) sc m) = Returns []
      \<and> fst (initialize_crazyflie_drivers None (Inl e) m) = Returns []
      \<and> fst (scan_esp32_ports (Inl e) m) = Returns [])
   \<and> fst (initialize_crazyflie_drivers None (Inr available) m) = Returns available
   \<and> fst (scan_esp32_ports (Inr ports) m) =
       Returns (map device
         (filter (\<lambda>port. \<exists>keyword \<in> set [''esp32'', ''xiao'', ''ch340'', ''cp210''].
                     \<exists>w. sublist w (description port) \<and> lower w = keyword) ports))"
proof -
  have k: "list_ex (\<lambda>keyword. str_in keyword (lower (description port))) esp32_keywords
        \<longleftrightarrow> (\<exists>keyword \<in> set [''esp32'', ''xiao'', ''ch340'', ''cp210''].
                     \<exists>w. sublist w (description port) \<and> lower w = keyword)" for port
    unfolding list_ex_iff str_in_sublist esp32_keywords_def lower_def sublist_map_iff ..
  have s: "fst (scan_esp32_ports (Inr ports) m) = Returns (fst (scan_ports_loop ports []))"
    by (simp add: scan_esp32_ports_def split: prod.splits)
  show ?thesis
    unfolding s scan_ports_loop_filter k
    by (simp add: initialize_crazyflie_drivers_def drivers_failed_def scan_esp32_ports_def)
qed


theorem discovery_never_fails_witness:
  "is_Exception (Exception ''usb access denied'')
   \<and> fst (initialize_crazyflie_drivers (Some (Exception ''usb access denied'')) (Inr []) init_monitor)
       = Returns []
   \<and> fst (initialize_crazyflie_drivers None (Inl (Exception ''usb access denied'')) init_monitor)
       = Returns []
   \<and> fst (scan_esp32_ports (Inl (Exception ''usb access denied'')) init_monitor) = Returns []
   \<and> fst (scan_esp32_ports (Inr sample_ports) init_monitor) = Returns [''/dev/ttyUSB0'', ''/dev/ttyACM0'']
   \<and> map device
         (filter (\<lambda>port. \<exists>keyword \<in> set [''esp32'', ''xiao'', ''ch340'', ''cp210''].
                     \<exists>w. sublist w (description port) \<and> lower w = keyword) sample_ports)
       = [''/dev/ttyUSB0'', ''/dev/ttyACM0'']"
proof -
  have a: "is_Exception (Exception ''usb access denied'')" by simp
  have b: "fst (scan_esp32_ports (Inr sample_ports) init_monitor) = Returns [''/dev/ttyUSB0'', ''/dev/ttyACM0'']"
    by code_simp
  note t = discovery_never_fails [of "Exception ''usb access denied''" "Inr []" init_monitor "[]" sample_ports]
  from t b have c: "map device
         (filter (\<lambda>port. \<exists>keyword \<in> set [''esp32'', ''xiao'', ''ch340'', ''cp210''].
                     \<exists>w. sublist w (description port) \<and> lower w = keyword) sample_ports)
       = [''/dev/ttyUSB0'', ''/dev/ttyACM0'']"
    by simp
  from t a b c show ?thesis by simp
qed

subsection \<open>The main program\<close>

lemma initialize_crazyflie_drivers_quiet:
  "filter further_action (snd (snd (initialize_crazyflie_drivers ini sc m))) = []
   \<and> fst (snd (initialize_crazyflie_drivers ini sc m)) = m"
  by (auto simp: initialize_crazyflie_drivers_def drivers_failed_def Let_def filter_empty_conv
      split: option.splits sum.splits)

lemma scan_ports_loop_quiet: "filter further_action (snd (scan_ports_loop ports acc)) = []"
  by (induction ports arbitrary: acc) (simp_all add: Let_def split_beta)

lemma scan_esp32_ports_quiet:
  "filter further_action (snd (snd (scan_esp32_ports cp m))) = []
   \<and> fst (snd (scan_esp32_ports cp m)) = m"
  by (auto simp: scan_esp32_ports_def scan_ports_loop_quiet split_beta split: sum.splits)

lemma scan_esp32_ports_returns:
  "\<forall>e. cp = Inl e \<longrightarrow> is_Exception e \<Longrightarrow> \<exists>found. fst (scan_esp32_ports cp m) = Returns found"
  by (auto simp: scan_esp32_ports_def split_beta split: sum.splits)

lemma cleanup_init_monitor:
  "cleanup cl cs init_monitor = (Returns (), init_monitor, [Log INFO [Lit ''Cleaning up connections...'']])"
  by (simp add: cleanup_def init_monitor_def)

text \<open>
  C8. When link discovery yields no endpoints, a run of \<^verbatim>\<open>main\<close> opens no link
  and no serial port, writes to and reads from no peripheral, starts no status loop
  and never prompts for a command; the monitor ends as it was created. Unless serial
  discovery is interrupted, the run logs the error that no Crazyflie device was found,
  returns normally and ends with the line that the monitor has stopped.
\<close>

theorem no_link_endpoints_halts:
  assumes "fst (initialize_crazyflie_drivers (init_drivers_result env) (scan_interfaces_result env)
             init_monitor) = Returns []"
  shows "filter further_action (snd (snd (main env))) = []
    \<and> fst (snd (main env)) = init_monitor
    \<and> ((\<forall>e. comports_result env = Inl e \<longrightarrow> is_Exception e) \<longrightarrow>
         fst (main env) = Returns ()
         \<and> Log ERROR [Lit ''No Crazyflie devices found!''] \<in> set (snd (snd (main env)))
         \<and> last (snd (snd (main env))) = Print ''Monitor stopped.'')"
proof -
  obtain ev1 where i: "initialize_crazyflie_drivers (init_drivers_result env) (scan_interfaces_result env)
      init_monitor = (Returns [], init_monitor, ev1)" and q1: "filter further_action ev1 = []"
    using assms initialize_crazyflie_drivers_quiet
      [of "init_drivers_result env" "scan_interfaces_result env" init_monitor]
    by (cases "initialize_crazyflie_drivers (init_drivers_result env) (scan_interfaces_result env)
      init_monitor") auto
  obtain res2 ev2 where s: "scan_esp32_ports (comports_result env) init_monitor = (res2, init_monitor, ev2)"
    and q2: "filter further_action ev2 = []"
    using scan_esp32_ports_quiet [of "comports_result env" init_monitor]
    by (cases "scan_esp32_ports (comports_result env) init_monitor") auto
  have b: "main_body env init_monitor =
      (case res2 of Returns found \<Rightarrow> (Returns (), init_monitor, ev1 @ ev2 @ no_crazyflie_report)
                  | Raises e \<Rightarrow> (Raises e, init_monitor, ev1 @ ev2)
                  | Unfinished \<Rightarrow> (Unfinished, init_monitor, ev1 @ ev2))"
    by (simp add: main_body_def then_do_def i s split: outcome.splits)
  have q3: "filter further_action no_crazyflie_report = []"
    by (simp add: no_crazyflie_report_def)
  have q4: "filter further_action banner = []"
    by (simp add: banner_def)
  have 1: "filter further_action (snd (snd (main env))) = [] \<and> fst (snd (main env)) = init_monitor"
    by (cases res2) (simp_all add: main_def b cleanup_init_monitor q1 q2 q3 q4)
  have 2: "fst (main env) = Returns ()
         \<and> Log ERROR [Lit ''No Crazyflie devices found!''] \<in> set (snd (snd (main env)))
         \<and> last (snd (snd (main env))) = Print ''Monitor stopped.''"
    if h: "\<forall>e. comports_result env = Inl e \<longrightarrow> is_Exception e"
  proof -
    obtain found where "res2 = Returns found"
      using scan_esp32_ports_returns [OF h, of init_monitor] s by auto
    then show ?thesis
      by (simp add: main_def b cleanup_init_monitor no_crazyflie_report_def)
  qed
  from 1 2 show ?thesis by blast
qed

theorem no_link_endpoints_halts_witness:
  "fst (initialize_crazyflie_drivers (init_drivers_result no_radio_env)
          (scan_interfaces_result no_radio_env) init_monitor) = Returns []
   \<and> filter further_action (snd (snd (main no_radio_env))) = []
   \<and> fst (snd (main no_radio_env)) = init_monitor
   \<and> fst (main no_radio_env) = Returns ()
   \<and> Log ERROR [Lit ''No Crazyflie devices found!''] \<in> set (snd (snd (main no_radio_env)))
   \<and> last (snd (snd (main no_radio_env))) = Print ''Monitor stopped.''"
proof -
  have h: "fst (initialize_crazyflie_drivers (init_drivers_result no_radio_env)
          (scan_interfaces_result no_radio_env) init_monitor) = Returns []"
    by (simp add: no_radio_env_def initialize_crazyflie_drivers_def)
  have c: "\<forall>e. comports_result no_radio_env = Inl e \<longrightarrow> is_Exception e"
    by (simp add: no_radio_env_def)
  from h c no_link_endpoints_halts [OF h] show ?thesis
    by blast
qed

subsection \<open>Connecting the link peripheral\<close>























end
